theory Spec2Isabelle
  imports
    Main
    "HOL-Library.Multiset"
    "HOL-Library.Char_ord"
    "HOL-Library.List_Lexorder"
    "HOL-Library.Sublist"
begin

section \<open>The n00plicate helper CLI (cli.py)\<close>

text \<open>
  The program is forty lines of glue: \<open>main\<close> parses the command line with argparse and
  either lists the directories under \<open>REPO_ROOT/packages\<close> (\<open>list_packages\<close>) or runs
  \<open>git status -sb\<close> in \<open>REPO_ROOT\<close>. Everything it does is an effect, so the model passes a
  \<open>world\<close> through every function: what lies under \<open>REPO_ROOT\<close>, what the git child process
  will do, and what has been written to the console so far. Exceptions are values of type
  \<open>exn\<close>, returned on the left of a sum.
\<close>

subsection \<open>The world\<close>

datatype stream = Stdout | Stderr

text \<open>
  The exceptions the program can meet. \<open>SystemExit\<close> is what argparse raises through
  \<open>sys.exit\<close>; \<open>NotADirectoryError\<close> and \<open>FileNotFoundError\<close> are the \<open>OSError\<close>s of
  \<open>os.listdir\<close> and of a child process that cannot be started; \<open>CalledProcessError\<close> is
  raised by \<open>subprocess.run(..., check=True)\<close> and carries the return code.
\<close>

datatype exn =
    SystemExit int
  | FileNotFoundError
  | NotADirectoryError
  | CalledProcessError int

text \<open>
  What reaches the console, in the order it is written. The wording of argparse's help
  and usage texts depends on the program name and is kept abstract: \<open>Help_Text p\<close> is
  \<open>print_help()\<close> of the main parser (\<open>p = None\<close>) or of the subparser \<open>p = Some name\<close>,
  \<open>Usage_Error p\<close> is what \<open>ArgumentParser.error\<close> of that parser writes (its usage line and
  the error message). \<open>Child s t\<close> is text \<open>t\<close> that the child process wrote to the stream
  \<open>s\<close> it inherited. \<open>Traceback e\<close> is the interpreter's report of an uncaught exception.
\<close>

datatype event =
    Print string
  | Help_Text "string option"
  | Usage_Error "string option"
  | Child stream string
  | Traceback exn

fun stream_of :: "event \<Rightarrow> stream" where
  "stream_of (Print s) = Stdout"
| "stream_of (Help_Text p) = Stdout"
| "stream_of (Usage_Error p) = Stderr"
| "stream_of (Child s t) = s"
| "stream_of (Traceback e) = Stderr"

text \<open>
  A directory is the list of its entries in the order \<open>os.listdir\<close> yields them, which the
  operating system chooses. \<open>File\<close> stands for every entry for which \<open>is_dir()\<close> is false.
\<close>

datatype node = File | Dir "(string \<times> node) list"

fun is_dir :: "node \<Rightarrow> bool" where
  "is_dir File = False"
| "is_dir (Dir es) = True"

text \<open>
  The child process \<open>git status -sb\<close>: either it cannot be started, or it runs to its end,
  having written some chunks of text to its standard output and standard error, and
  leaves a return code.
\<close>

datatype proc = Launch_Failed | Exited int "(stream \<times> string) list"

record world =
  repo :: "(string \<times> node) list"
  git :: proc
  console :: "event list"

definition emit :: "event \<Rightarrow> world \<Rightarrow> world" where
  "emit e w = w\<lparr>console := console w @ [e]\<rparr>"

subsection \<open>Path operations on \<open>REPO_ROOT / name\<close>\<close>

definition exists_path :: "world \<Rightarrow> string \<Rightarrow> bool" where
  "exists_path w name \<longleftrightarrow> map_of (repo w) name \<noteq> None"

definition iterdir :: "world \<Rightarrow> string \<Rightarrow> exn + (string \<times> node) list" where
  "iterdir w name =
     (case map_of (repo w) name of
        None \<Rightarrow> Inl FileNotFoundError
      | Some File \<Rightarrow> Inl NotADirectoryError
      | Some (Dir es) \<Rightarrow> Inr es)"

subsection \<open>\<open>list_packages\<close>\<close>






fun list_loop :: "(string \<times> node) list \<Rightarrow> world \<Rightarrow> world" where
  "list_loop [] w = w"
| "list_loop ((name, pkg) # rest) w =
     list_loop rest (if is_dir pkg then emit (Print (''- '' @ name)) w else w)"

definition list_packages :: "world \<Rightarrow> (exn + unit) \<times> world" where
  "list_packages w =
     (if \<not> exists_path w ''packages'' then
        (Inr (), emit (Print ''No packages directory found.'') w)
      else
        (case iterdir w ''packages'' of
           Inl e \<Rightarrow> (Inl e, w)
         | Inr es \<Rightarrow> (Inr (), list_loop (sort_key fst es) w)))"

subsection \<open>\<open>subprocess.run(["git", "status", "-sb"], check=True, cwd=REPO_ROOT)\<close>\<close>

text \<open>
  No stream is captured, so the child writes to the tool's own standard output and
  standard error. With \<open>check=True\<close> a return code other than 0 raises
  \<open>CalledProcessError\<close> after the child has ended. A child that cannot be started raises
  an \<open>OSError\<close>: \<open>FileNotFoundError\<close> when there is no \<open>git\<close> on the path, which stands here
  for every failed start (a \<open>PermissionError\<close> ends the run the same way).
\<close>

definition subprocess_run :: "world \<Rightarrow> (exn + int) \<times> world" where
  "subprocess_run w =
     (case git w of
        Launch_Failed \<Rightarrow> (Inl FileNotFoundError, w)
      | Exited rc out \<Rightarrow>
          (let w' = w\<lparr>console := console w @ map (\<lambda>(s, t). Child s t) out\<rparr>
           in if rc \<noteq> 0 then (Inl (CalledProcessError rc), w') else (Inr rc, w')))"

subsection \<open>The argument parser\<close>

text \<open>
  \<open>main\<close> builds a parser with the option \<open>-h\<close>/\<open>--help\<close> (argparse adds it) and one
  required positional, the subcommand, with the choices \<open>packages\<close> and \<open>status\<close>; each
  subparser has \<open>-h\<close>/\<open>--help\<close> and nothing else. The functions below follow
  \<open>ArgumentParser._parse_optional\<close>, \<open>_get_option_tuples\<close> and \<open>_parse_known_args\<close> of
  CPython 3.12 for such a parser.

  \<open>tok\<close> is what one argument string amounts to: \<open>Arg\<close>, a positional (an \<open>A\<close> of the
  pattern); \<open>Extra\<close>, an option string no option matches, which is put aside;
  \<open>Help_Hit\<close>, the help action is taken; \<open>Bad_Opt\<close>, an \<open>ArgumentError\<close>
  (an explicit argument given to the help option).
\<close>

definition choices :: "string list" where
  "choices = [''packages'', ''status'']"

datatype tok = Arg | Extra | Help_Hit | Bad_Opt

text \<open>
  \<open>consume_optional\<close> for \<open>-h\<close> followed by more characters \<open>e\<close> in the same string:
  \<open>sep\<close> tells that an \<open>=\<close> stood before \<open>e\<close>. Each further \<open>h\<close> is the help flag again;
  any other letter ends the string as an extra, and the help action collected so far is
  taken.
\<close>

fun short_flags :: "bool \<Rightarrow> string \<Rightarrow> tok" where
  "short_flags sep [] = Bad_Opt"
| "short_flags sep (c # e) =
     (if sep \<or> c = CHR ''-'' then Bad_Opt
      else if c = CHR ''h'' then
        (case e of
           [] \<Rightarrow> Help_Hit
         | d # e' \<Rightarrow> if d = CHR ''='' then short_flags True e' else short_flags False e)
      else Help_Hit)"

text \<open>
  The regular expression \<open>^-\d+$|^-\d*\.\d+$\<close> on a string that begins with \<open>-\<close>;
  \<open>$\<close> also matches before a final newline. Argument strings are taken byte by byte, so
  \<open>\d\<close> is an ASCII digit here.
\<close>

definition is_digit :: "char \<Rightarrow> bool" where
  "is_digit c \<longleftrightarrow> c \<in> set ''0123456789''"

definition negative_number :: "string \<Rightarrow> bool" where
  "negative_number a =
     (let b = tl a;
          b' = (if b \<noteq> [] \<and> last b = CHR 0x0A then butlast b else b);
          frac = dropWhile is_digit b'
      in (b' \<noteq> [] \<and> list_all is_digit b') \<or>
         (frac \<noteq> [] \<and> hd frac = CHR ''.'' \<and> tl frac \<noteq> [] \<and> list_all is_digit (tl frac)))"

definition parse_optional :: "string \<Rightarrow> tok" where
  "parse_optional a =
     (if a = [] then Arg
      else if hd a \<noteq> CHR ''-'' then Arg
      else if a = ''-h'' \<or> a = ''--help'' then Help_Hit
      else if length a = 1 then Arg
      else
        (let opt = takeWhile (\<lambda>c. c \<noteq> CHR ''='') a;
             sep = (CHR ''='' \<in> set a)
         in if sep \<and> (opt = ''-h'' \<or> opt = ''--help'') then Bad_Opt
            else if a ! 1 = CHR ''-'' \<and> prefix opt ''--help'' then
              (if sep then Bad_Opt else Help_Hit)
            else if a ! 1 \<noteq> CHR ''-'' \<and> take 2 a = ''-h'' then short_flags False (drop 2 a)
            else if negative_number a then Arg
            else if CHR '' '' \<in> set a then Arg
            else Extra))"

text \<open>
  A subparser has no positional: every string that is not the help option ends among the
  extras, and so does everything from \<open>--\<close> on.
\<close>

datatype sub_result = Sub_Extras "string list" | Sub_Help | Sub_Error

fun sub_parse :: "string list \<Rightarrow> sub_result" where
  "sub_parse [] = Sub_Extras []"
| "sub_parse (a # rest) =
     (if a = ''--'' then Sub_Extras (a # rest)
      else
        (case parse_optional a of
           Help_Hit \<Rightarrow> Sub_Help
         | Bad_Opt \<Rightarrow> Sub_Error
         | _ \<Rightarrow>
            (case sub_parse rest of
               Sub_Extras xs \<Rightarrow> Sub_Extras (a # xs)
             | r \<Rightarrow> r)))"

text \<open>
  The main parser. Option strings before the subcommand are consumed one by one; the
  first positional is the subcommand and takes the rest of the line with it (the pattern
  of \<open>nargs=PARSER\<close>). \<open>extras\<close> records that an unknown option string was put aside, which
  \<open>parse_args\<close> rejects at the end. \<open>Accept c\<close> is a namespace with \<open>command = c\<close>;
  \<open>Help_Exit p\<close> and \<open>Error_Exit p\<close> name the parser that prints.
\<close>

datatype outcome = Accept string | Help_Exit "string option" | Error_Exit "string option"

fun top_parse :: "bool \<Rightarrow> string list \<Rightarrow> outcome" where
  "top_parse extras [] = Error_Exit None"
| "top_parse extras (a # rest) =
     (if a = ''--'' then Error_Exit None
      else
        (case parse_optional a of
           Help_Hit \<Rightarrow> Help_Exit None
         | Bad_Opt \<Rightarrow> Error_Exit None
         | Extra \<Rightarrow> top_parse True rest
         | Arg \<Rightarrow>
            if a \<notin> set choices then Error_Exit None
            else
              (case sub_parse rest of
                 Sub_Help \<Rightarrow> Help_Exit (Some a)
               | Sub_Error \<Rightarrow> Error_Exit (Some a)
               | Sub_Extras xs \<Rightarrow>
                   if extras \<or> xs \<noteq> [] then Error_Exit None else Accept a)))"

text \<open>
  \<open>parser.parse_args()\<close> on \<open>sys.argv[1:]\<close>: the help action prints the help text on
  standard output and exits with status 0; \<open>error\<close> prints usage and message on standard
  error and exits with status 2.
\<close>

definition parse_args :: "string list \<Rightarrow> world \<Rightarrow> (exn + string) \<times> world" where
  "parse_args argv w =
     (case top_parse False argv of
        Accept c \<Rightarrow> (Inr c, w)
      | Help_Exit p \<Rightarrow> (Inl (SystemExit 0), emit (Help_Text p) w)
      | Error_Exit p \<Rightarrow> (Inl (SystemExit 2), emit (Usage_Error p) w))"

subsection \<open>\<open>main\<close> and the script\<close>

definition main :: "string list \<Rightarrow> world \<Rightarrow> (exn + int) \<times> world" where
  "main argv w =
     (case parse_args argv w of
        (Inl e, w1) \<Rightarrow> (Inl e, w1)
      | (Inr command, w1) \<Rightarrow>
          if command = ''packages'' then
            (case list_packages w1 of
               (Inl e, w2) \<Rightarrow> (Inl e, w2)
             | (Inr u, w2) \<Rightarrow> (Inr 0, w2))
          else if command = ''status'' then
            (case subprocess_run w1 of
               (Inl e, w2) \<Rightarrow> (Inl e, w2)
             | (Inr r, w2) \<Rightarrow> (Inr 0, w2))
          else (Inr 1, emit (Help_Text None) w1))"

text \<open>
  \<open>raise SystemExit(main())\<close>: the exit status of the process is the value \<open>main\<close> returns
  or the code of a \<open>SystemExit\<close> raised inside it, as the operating system keeps it (the
  low eight bits). Any other exception is uncaught: the interpreter prints the traceback
  on standard error and exits with status 1.
\<close>

fun script_exit :: "(exn + int) \<times> world \<Rightarrow> int \<times> world" where
  "script_exit (Inr n, w) = (n mod 256, w)"
| "script_exit (Inl (SystemExit n), w) = (n mod 256, w)"
| "script_exit (Inl e, w) = (1, emit (Traceback e) w)"

definition script :: "string list \<Rightarrow> world \<Rightarrow> int \<times> world" where
  "script argv w = script_exit (main argv w)"

text \<open>What stands on standard output.\<close>

definition stdout_of :: "world \<Rightarrow> event list" where
  "stdout_of w = filter (\<lambda>e. stream_of e = Stdout) (console w)"

subsection \<open>Worlds for evaluating the model\<close>

text \<open>
  A checkout with two packages, one of them with a subdirectory of its own, and a stray
  file beside them, listed in an order that is not sorted; git reports a clean branch.
\<close>

definition example_packages :: "(string \<times> node) list" where
  "example_packages = [(''b'', Dir []), (''a'', Dir [(''src'', Dir [])]), (''notadir'', File)]"

definition example_world :: world where
  "example_world =
     \<lparr>repo = [(''cli.py'', File), (''packages'', Dir example_packages)],
      git = Exited 0 [(Stdout, ''## main'')],
      console = []\<rparr>"


section \<open>Properties\<close>

subsection \<open>Auxiliary facts\<close>

text \<open>The loop appends one line for each directory of the list it walks, in that order.\<close>

lemma list_loop_console:
  "list_loop es w =
     w\<lparr>console := console w @
        map (\<lambda>name. Print (''- '' @ name)) (map fst (filter (\<lambda>(name, pkg). is_dir pkg) es))\<rparr>"
  by (induction es arbitrary: w) (auto simp: emit_def)

lemma map_insort_key: "map f (insort_key f x xs) = insort (f x) (map f xs)"
  by (induction xs) auto

lemma map_sort_key: "map f (sort_key f xs) = sort (map f xs)"
  by (induction xs) (auto simp: map_insort_key)

text \<open>Sorting the entries and then dropping some gives the sorted names of the rest.\<close>

lemma names_sorted_filtered:
  "map fst (filter P (sort_key fst es)) = sort (map fst (filter P es))"
  by (simp add: filter_sort map_sort_key)

lemma parse_packages: "parse_args [''packages''] w = (Inr ''packages'', w)"
  by (simp add: parse_args_def parse_optional_def choices_def)

lemma parse_status: "parse_args [''status''] w = (Inr ''status'', w)"
  by (simp add: parse_args_def parse_optional_def choices_def)

lemma script_packages:
  "script [''packages''] w =
     script_exit (case list_packages w of (Inl e, w2) \<Rightarrow> (Inl e, w2) | (Inr u, w2) \<Rightarrow> (Inr 0, w2))"
  by (simp add: script_def main_def parse_packages)

lemma script_status:
  "script [''status''] w =
     script_exit (case subprocess_run w of (Inl e, w2) \<Rightarrow> (Inl e, w2) | (Inr r, w2) \<Rightarrow> (Inr 0, w2))"
  by (simp add: script_def main_def parse_status)

text \<open>The sorted names depend on the entries only, not on the order they come in.\<close>

lemma sort_names_mset:
  assumes "mset es = mset es'"
  shows "sort (map fst (filter P es)) = sort (map fst (filter P es'))"
proof -
  have "mset (map fst (filter P es)) = mset (map fst (filter P es'))"
    using assms by (metis mset_filter mset_map)
  then show ?thesis
    by (metis sorted_list_of_multiset_mset)
qed

lemma list_loop_repo: "repo (list_loop es w) = repo w"
  by (simp add: list_loop_console)

lemma script_exit_repo: "repo (snd (script_exit r)) = repo (snd r)"
  by (induction r rule: script_exit.induct) (simp_all add: emit_def)

text \<open>The parser hands back nothing but one of its choices.\<close>

lemma top_parse_choice: "top_parse extras argv = Accept c \<Longrightarrow> c \<in> set choices"
  by (induction argv arbitrary: extras) (auto split: if_splits tok.splits sub_result.splits)

lemma parse_args_choice: "fst (parse_args argv w) = Inr c \<Longrightarrow> c \<in> set choices"
  by (auto simp: parse_args_def split: outcome.splits dest: top_parse_choice)

subsection \<open>The package lister\<close>



text \<open>
  Claim C4. When \<open>REPO_ROOT/packages\<close> does not exist, the \<open>packages\<close> subcommand prints the
  one line \<open>No packages directory found.\<close> and the tool exits with status 0.
\<close>

theorem missing_packages_directory_is_not_an_error:
  assumes "map_of (repo w) ''packages'' = None"
  shows "script [''packages''] w = (0, emit (Print ''No packages directory found.'') w)"
  using assms by (simp add: script_packages list_packages_def exists_path_def)

theorem missing_packages_directory_is_not_an_error_witness:
  "map_of (repo (example_world\<lparr>repo := [(''cli.py'', File)]\<rparr>)) ''packages'' = None \<and>
   script [''packages''] (example_world\<lparr>repo := [(''cli.py'', File)]\<rparr>) =
     (0, example_world\<lparr>repo := [(''cli.py'', File)],
           console := [Print ''No packages directory found.'']\<rparr>)"
  using missing_packages_directory_is_not_an_error [of "example_world\<lparr>repo := [(''cli.py'', File)]\<rparr>"]
  by (simp add: example_world_def emit_def)

text \<open>
  Claim C6. When \<open>REPO_ROOT/packages\<close> is a directory without entries, the \<open>packages\<close>
  subcommand prints nothing and the tool exits with status 0: the world is as it was.
\<close>

theorem empty_packages_directory_prints_nothing:
  assumes "map_of (repo w) ''packages'' = Some (Dir [])"
  shows "script [''packages''] w = (0, w)"
  using assms by (simp add: script_packages list_packages_def exists_path_def iterdir_def)

theorem empty_packages_directory_prints_nothing_witness:
  "map_of (repo (example_world\<lparr>repo := [(''packages'', Dir [])]\<rparr>)) ''packages'' = Some (Dir []) \<and>
   script [''packages''] (example_world\<lparr>repo := [(''packages'', Dir [])]\<rparr>) =
     (0, example_world\<lparr>repo := [(''packages'', Dir [])]\<rparr>)"
  using empty_packages_directory_prints_nothing [of "example_world\<lparr>repo := [(''packages'', Dir [])]\<rparr>"]
  by (simp add: example_world_def)

text \<open>
  Claim C7. Two runs of the \<open>packages\<close> subcommand over the same directory contents give the
  same exit status and the same console, in whatever order the operating system lists
  the entries: the two listings \<open>es\<close> and \<open>es'\<close> hold the same entries (as multisets).
\<close>

theorem listing_independent_of_enumeration_order:
  assumes "map_of (repo w) ''packages'' = Some (Dir es)"
    and "map_of (repo w') ''packages'' = Some (Dir es')"
    and "mset es = mset es'"
    and "console w = console w'"
  shows "fst (script [''packages''] w) = fst (script [''packages''] w') \<and>
         console (snd (script [''packages''] w)) = console (snd (script [''packages''] w'))"
  using assms(1,2,4) sort_names_mset [OF assms(3)]
  by (simp add: script_packages list_packages_def exists_path_def iterdir_def
      list_loop_console names_sorted_filtered)

theorem listing_independent_of_enumeration_order_witness:
  "map_of (repo example_world) ''packages'' = Some (Dir example_packages) \<and>
   map_of (repo (example_world\<lparr>repo := [(''packages'', Dir (rev example_packages))]\<rparr>)) ''packages''
     = Some (Dir (rev example_packages)) \<and>
   mset example_packages = mset (rev example_packages) \<and>
   console example_world =
     console (example_world\<lparr>repo := [(''packages'', Dir (rev example_packages))]\<rparr>) \<and>
   fst (script [''packages''] example_world) =
     fst (script [''packages'']
       (example_world\<lparr>repo := [(''packages'', Dir (rev example_packages))]\<rparr>)) \<and>
   console (snd (script [''packages''] example_world)) =
     console (snd (script [''packages'']
       (example_world\<lparr>repo := [(''packages'', Dir (rev example_packages))]\<rparr>)))"
  using listing_independent_of_enumeration_order [of example_world example_packages
      "example_world\<lparr>repo := [(''packages'', Dir (rev example_packages))]\<rparr>"
      "rev example_packages"]
  by (simp add: example_world_def)

text \<open>
  Claim C8. A run of the \<open>packages\<close> subcommand leaves everything under \<open>REPO_ROOT\<close> as it
  was: \<open>exists\<close>, \<open>iterdir\<close> and \<open>is_dir\<close> only read, and the console is the one thing that
  changes.
\<close>

theorem packages_leaves_filesystem_unchanged:
  "repo (snd (script [''packages''] w)) = repo w"
  by (simp add: script_packages script_exit_repo list_packages_def emit_def list_loop_repo
      split: sum.splits)

theorem packages_leaves_filesystem_unchanged_witness:
  "repo (snd (script [''packages''] example_world)) =
     [(''cli.py'', File), (''packages'', Dir example_packages)]"
  using packages_leaves_filesystem_unchanged [of example_world]
  by (simp add: example_world_def)

text \<open>
  Claim C9. When \<open>REPO_ROOT/packages\<close> exists and is not a directory, \<open>exists()\<close> holds and
  \<open>iterdir()\<close> raises \<open>NotADirectoryError\<close>, which nothing catches: \<open>main\<close> prints nothing,
  and the tool ends with a traceback and exit status 1.
\<close>

theorem packages_path_not_a_directory_raises:
  assumes "map_of (repo w) ''packages'' = Some File"
  shows "main [''packages''] w = (Inl NotADirectoryError, w) \<and>
         script [''packages''] w = (1, emit (Traceback NotADirectoryError) w)"
  using assms
  by (simp add: script_def main_def parse_packages list_packages_def exists_path_def iterdir_def)

theorem packages_path_not_a_directory_raises_witness:
  "map_of (repo (example_world\<lparr>repo := [(''packages'', File)]\<rparr>)) ''packages'' = Some File \<and>
   main [''packages''] (example_world\<lparr>repo := [(''packages'', File)]\<rparr>) =
     (Inl NotADirectoryError, example_world\<lparr>repo := [(''packages'', File)]\<rparr>) \<and>
   script [''packages''] (example_world\<lparr>repo := [(''packages'', File)]\<rparr>) =
     (1, example_world\<lparr>repo := [(''packages'', File)],
           console := [Traceback NotADirectoryError]\<rparr>)"
  using packages_path_not_a_directory_raises [of "example_world\<lparr>repo := [(''packages'', File)]\<rparr>"]
  by (simp add: example_world_def emit_def)

subsection \<open>The status reporter\<close>

text \<open>
  Claim C3. When the git child ends with a return code other than 0, the \<open>status\<close>
  subcommand does not report success: \<open>CalledProcessError\<close> is raised and uncaught, and
  the tool exits with status 1 after what the child wrote. When the child cannot be
  started, the \<open>OSError\<close> is uncaught as well and the tool exits with status 1.
\<close>

theorem status_failure_is_fatal:
  "(git w = Exited rc out \<and> rc \<noteq> 0 \<longrightarrow>
      script [''status''] w =
        (1, emit (Traceback (CalledProcessError rc))
              (w\<lparr>console := console w @ map (\<lambda>(s, t). Child s t) out\<rparr>))) \<and>
   (git w = Launch_Failed \<longrightarrow>
      script [''status''] w = (1, emit (Traceback FileNotFoundError) w))"
  by (simp add: script_status subprocess_run_def)

theorem status_failure_is_fatal_witness:
  "git (example_world\<lparr>git := Exited 128 [(Stderr, ''fatal: not a git repository'')]\<rparr>)
     = Exited 128 [(Stderr, ''fatal: not a git repository'')] \<and>
   (128::int) \<noteq> 0 \<and>
   script [''status'']
       (example_world\<lparr>git := Exited 128 [(Stderr, ''fatal: not a git repository'')]\<rparr>) =
     (1, example_world\<lparr>git := Exited 128 [(Stderr, ''fatal: not a git repository'')],
           console := [Child Stderr ''fatal: not a git repository'',
                       Traceback (CalledProcessError 128)]\<rparr>) \<and>
   git (example_world\<lparr>git := Launch_Failed\<rparr>) = Launch_Failed \<and>
   script [''status''] (example_world\<lparr>git := Launch_Failed\<rparr>) =
     (1, example_world\<lparr>git := Launch_Failed, console := [Traceback FileNotFoundError]\<rparr>)"
  using status_failure_is_fatal
      [of "example_world\<lparr>git := Exited 128 [(Stderr, ''fatal: not a git repository'')]\<rparr>"
        128 "[(Stderr, ''fatal: not a git repository'')]"]
    status_failure_is_fatal [of "example_world\<lparr>git := Launch_Failed\<rparr>" 0 "[]"]
  by (simp add: example_world_def emit_def)

text \<open>
  Claim C5. When the git child ends with return code 0 having written the chunks \<open>out\<close>,
  the console of the \<open>status\<close> subcommand gains exactly those chunks, each on the stream
  the child wrote it to and in the child's order, and the tool exits with status 0.
\<close>

theorem status_relays_child_output:
  assumes "git w = Exited 0 out"
  shows "script [''status''] w =
     (0, w\<lparr>console := console w @ map (\<lambda>(s, t). Child s t) out\<rparr>)"
  using assms by (simp add: script_status subprocess_run_def)

theorem status_relays_child_output_witness:
  "git example_world = Exited 0 [(Stdout, ''## main'')] \<and>
   script [''status''] example_world =
     (0, example_world\<lparr>console := [Child Stdout ''## main'']\<rparr>)"
  using status_relays_child_output [of example_world "[(Stdout, ''## main'')]"]
  by (simp add: example_world_def)

subsection \<open>The dispatcher\<close>

text \<open>
  Claim C10. Whenever \<open>parse_args\<close> returns, the command it parsed is \<open>packages\<close> or
  \<open>status\<close>. So the last branch of \<open>main\<close>, which prints the help and returns 1, is never
  taken: when the action \<open>main\<close> dispatches to (\<open>list_packages\<close> for \<open>packages\<close>,
  \<open>subprocess.run\<close> for \<open>status\<close>) completes, \<open>main\<close> returns 0 in the world the action
  left; when the action raises, \<open>main\<close> raises the same exception; \<open>main\<close> never returns 1.
\<close>

theorem parsed_command_is_packages_or_status:
  assumes "parse_args argv w = (Inr c, w1)"
  shows "(c = ''packages'' \<or> c = ''status'') \<and>
         (c = ''packages'' \<and> list_packages w1 = (Inr u, w2) \<longrightarrow> main argv w = (Inr 0, w2)) \<and>
         (c = ''status'' \<and> subprocess_run w1 = (Inr r, w2) \<longrightarrow> main argv w = (Inr 0, w2)) \<and>
         (c = ''packages'' \<and> list_packages w1 = (Inl e, w2) \<longrightarrow> main argv w = (Inl e, w2)) \<and>
         (c = ''status'' \<and> subprocess_run w1 = (Inl e, w2) \<longrightarrow> main argv w = (Inl e, w2)) \<and>
         fst (main argv w) \<noteq> Inr 1"
proof -
  have "fst (parse_args argv w) = Inr c"
    using assms by simp
  then have c: "c = ''packages'' \<or> c = ''status''"
    using parse_args_choice [of argv w c] by (simp add: choices_def)
  show ?thesis
    using c by (auto simp: main_def assms split: prod.splits sum.splits)
qed

theorem parsed_command_is_packages_or_status_witness:
  "parse_args [''packages''] example_world = (Inr ''packages'', example_world) \<and>
   list_packages example_world =
     (Inr (), example_world\<lparr>console := [Print ''- a'', Print ''- b'']\<rparr>) \<and>
   main [''packages''] example_world =
     (Inr 0, example_world\<lparr>console := [Print ''- a'', Print ''- b'']\<rparr>) \<and>
   parse_args [''status''] example_world = (Inr ''status'', example_world) \<and>
   subprocess_run example_world =
     (Inr 0, example_world\<lparr>console := [Child Stdout ''## main'']\<rparr>) \<and>
   main [''status''] example_world =
     (Inr 0, example_world\<lparr>console := [Child Stdout ''## main'']\<rparr>)"
  using parsed_command_is_packages_or_status
      [where argv = "[''packages'']" and w = example_world and c = "''packages''"
        and ?w1.0 = example_world and u = "()"
        and ?w2.0 = "example_world\<lparr>console := [Print ''- a'', Print ''- b'']\<rparr>"]
    parsed_command_is_packages_or_status
      [where argv = "[''status'']" and w = example_world and c = "''status''"
        and ?w1.0 = example_world and r = 0
        and ?w2.0 = "example_world\<lparr>console := [Child Stdout ''## main'']\<rparr>"]
  by (simp add: parse_packages parse_status list_packages_def exists_path_def iterdir_def
      subprocess_run_def emit_def example_world_def example_packages_def)

text \<open>
  Claim C1, as the specification states it: with no subcommand, or with a subcommand that
  is not one of the two, the tool prints the help on standard output and exits with
  status 1. The parser is built with \<open>required=True\<close> and a closed set of choices, so it
  rejects both command lines itself, through \<open>ArgumentParser.error\<close>: for the command line
  \<open>foo\<close>, and for the empty one, the exit status is not 1 and no help text stands on
  standard output.
\<close>

theorem usage_error_help_and_status_1_counterexample:
  "\<not> (fst (script [''foo''] example_world) = 1 \<and>
      Help_Text None \<in> set (stdout_of (snd (script [''foo''] example_world)))) \<and>
   \<not> (fst (script [] example_world) = 1 \<and>
      Help_Text None \<in> set (stdout_of (snd (script [] example_world))))"
  by (simp add: script_def main_def parse_args_def parse_optional_def choices_def emit_def
      stdout_of_def example_world_def)

text \<open>
  Claim C1, amended. For the empty command line, and for every command line whose first
  string is a positional (\<open>parse_optional\<close> gives \<open>Arg\<close>) other than \<open>packages\<close> and
  \<open>status\<close>, whatever follows it, the parser's usage and error message on standard error
  is all the tool writes, no package or status output among it, and the tool exits with
  status 2.
\<close>

theorem missing_or_unknown_subcommand_rejected:
  "script [] w = (2, emit (Usage_Error None) w) \<and>
   (parse_optional a = Arg \<and> a \<notin> set choices \<longrightarrow>
      script (a # rest) w = (2, emit (Usage_Error None) w))"
  by (simp add: script_def main_def parse_args_def parse_optional_def)

theorem missing_or_unknown_subcommand_rejected_witness:
  "script [] example_world = (2, example_world\<lparr>console := [Usage_Error None]\<rparr>) \<and>
   parse_optional ''foo'' = Arg \<and> ''foo'' \<notin> set choices \<and>
   script [''foo'', ''bar''] example_world =
     (2, example_world\<lparr>console := [Usage_Error None]\<rparr>)"
  using missing_or_unknown_subcommand_rejected [of example_world "''foo''" "[''bar'']"]
  by (simp add: parse_optional_def choices_def emit_def example_world_def)

end
